theory Spec2Isabelle
  imports Main
begin

section \<open>Package awsclient: data model\<close>

text \<open>
  The package wraps four AWS SDK service clients and resolves the credentials they are
  built from. Everything outside the package (the Kubernetes client, the SDK session
  constructor, the service constructors, the service clients' operations and the
  process environment primitive of package os) is a parameter of the model; the code
  of \<^verbatim>\<open>client.go\<close> is translated line by line on top of them.
\<close>

definition awsCredsSecretIDKey :: string where
  "awsCredsSecretIDKey = ''aws_access_key_id''"

definition awsCredsSecretAccessKey :: string where
  "awsCredsSecretAccessKey = ''aws_secret_access_key''"

record NewAwsClientInput =
  AwsCredsSecretIDKey :: string
  AwsCredsSecretAccessKey :: string
  AwsToken :: string
  AwsRegion :: string
  SecretName :: string
  NameSpace :: string

text \<open>
  A Go \<^verbatim>\<open>error\<close> returned by the package is either made here by \<^verbatim>\<open>fmt.Errorf\<close>
  (its message is kept) or it is a collaborator's error handed on unmodified.
\<close>

datatype 'x error = Errorf string | Foreign 'x

text \<open>\<^verbatim>\<open>types.NamespacedName\<close> and the part of \<^verbatim>\<open>corev1.Secret\<close> that is read.\<close>

record NamespacedName =
  Name :: string
  Namespace :: string

record Secret =
  Data :: "string \<rightharpoonup> string"

text \<open>
  \<^verbatim>\<open>kubeClient.Get(ctx, key, secret)\<close> fills the secret or returns an error.
\<close>

type_synonym 'x kube_client = "NamespacedName \<Rightarrow> 'x + Secret"

text \<open>
  \<^verbatim>\<open>aws.Config\<close>, reduced to the two fields the package sets, and the value made by
  \<^verbatim>\<open>credentials.NewStaticCredentials(id, secret, token)\<close>.
\<close>

datatype Credentials = NewStaticCredentials string string string

record Config =
  Region :: string
  Credentials :: "Credentials option"

text \<open>
  The four service clients of the facade. Their types are the SDK's interfaces
  (see the method tables below); here they are type parameters.
\<close>

record ('a, 'b, 'c, 'd) AwsClient =
  ec2Client :: 'a
  route53Client :: 'b
  elbClient :: 'c
  elbv2Client :: 'd

subsection \<open>The process and what is observed of it\<close>

text \<open>
  Every call that leaves the package is recorded, in order: a secret lookup, a write of
  an environment variable, the construction of a session.
\<close>

datatype event =
    KubeGet NamespacedName
  | Setenv string string
  | NewSession Config

record world =
  environ :: "string \<rightharpoonup> string"
  calls :: "event list"

text \<open>
  The libraries the package links against: \<^verbatim>\<open>os.Setenv\<close>, which returns an error
  or nil and the environment it leaves, \<^verbatim>\<open>session.NewSession\<close>, which reads the
  configuration and the environment, and the four service constructors.
\<close>

record ('x, 's, 'a, 'b, 'c, 'd) libs =
  os_Setenv :: "string \<Rightarrow> string \<Rightarrow> (string \<rightharpoonup> string) \<Rightarrow> 'x option \<times> (string \<rightharpoonup> string)"
  session_NewSession :: "Config \<Rightarrow> (string \<rightharpoonup> string) \<Rightarrow> 'x + 's"
  ec2_New :: "'s \<Rightarrow> 'a"
  elb_New :: "'s \<Rightarrow> 'c"
  elbv2_New :: "'s \<Rightarrow> 'd"
  route53_New :: "'s \<Rightarrow> 'b"

text \<open>
  A statement \<^verbatim>\<open>os.Setenv(k, v)\<close> whose returned error is not looked at, as on lines
  113 and 114.
\<close>

definition setenv :: "('x, 's, 'a, 'b, 'c, 'd) libs \<Rightarrow> string \<Rightarrow> string \<Rightarrow> world \<Rightarrow> world" where
  "setenv L k v w =
     w\<lparr>environ := snd (os_Setenv L k v (environ w)), calls := calls w @ [Setenv k v]\<rparr>"

text \<open>
  \<^verbatim>\<open>os.Setenv\<close> as the Go standard library documents it in packages os and
  syscall (for every system but Plan 9): the call is refused with the error EINVAL, and
  the environment is left as it was, when the key is empty, when the key holds an
  equals sign or a NUL byte, or when the value holds a NUL byte; otherwise the variable
  is set to the value. The error value is a parameter.
\<close>

definition go_Setenv :: "'x \<Rightarrow> string \<Rightarrow> string \<Rightarrow> (string \<rightharpoonup> string) \<Rightarrow> 'x option \<times> (string \<rightharpoonup> string)" where
  "go_Setenv einval key val e =
     (if key = [] \<or> CHR ''='' \<in> set key \<or> CHR 0x00 \<in> set key \<or> CHR 0x00 \<in> set val
      then (Some einval, e)
      else (None, e(key \<mapsto> val)))"

text \<open>The events a run added to the record of calls.\<close>

definition new_calls :: "world \<Rightarrow> world \<Rightarrow> event list" where
  "new_calls w w' = drop (length (calls w)) (calls w')"

fun is_KubeGet :: "event \<Rightarrow> bool" where
  "is_KubeGet (KubeGet _) = True"
| "is_KubeGet _ = False"


section \<open>Credential resolution\<close>

text \<open>\<^verbatim>\<open>NewClient\<close>, lines 110 to 128.\<close>

definition NewClient ::
  "('x, 's, 'a, 'b, 'c, 'd) libs \<Rightarrow> string \<Rightarrow> string \<Rightarrow> string \<Rightarrow> string \<Rightarrow> world
     \<Rightarrow> ('x error + ('a, 'b, 'c, 'd) AwsClient) \<times> world" where
  "NewClient L accessID accessSecret token region w =
     (let awsConfig = \<lparr>Region = region, Credentials = None\<rparr>;
          (awsConfig, w) =
             (if token = []
              then (awsConfig,
                    setenv L ''AWS_SECRET_ACCESS_KEY'' accessSecret
                      (setenv L ''AWS_ACCESS_KEY_ID'' accessID w))
              else (awsConfig\<lparr>Credentials :=
                      Some (NewStaticCredentials accessID accessSecret token)\<rparr>, w));
          w = w\<lparr>calls := calls w @ [NewSession awsConfig]\<rparr>
      in case session_NewSession L awsConfig (environ w) of
           Inl err \<Rightarrow> (Inl (Foreign err), w)
         | Inr s \<Rightarrow>
             (Inr \<lparr>ec2Client = ec2_New L s,
                   route53Client = route53_New L s,
                   elbClient = elb_New L s,
                   elbv2Client = elbv2_New L s\<rparr>, w))"

text \<open>
  The verb \<^verbatim>\<open>%v\<close> of package fmt on a \<^verbatim>\<open>NewAwsClientInput\<close>: the fields in
  declaration order, separated by spaces, in braces.
\<close>

definition fmt_v_input :: "NewAwsClientInput \<Rightarrow> string" where
  "fmt_v_input input =
     ''{'' @ AwsCredsSecretIDKey input @ '' '' @ AwsCredsSecretAccessKey input @ '' '' @
     AwsToken input @ '' '' @ AwsRegion input @ '' '' @ SecretName input @ '' '' @
     NameSpace input @ ''}''"

text \<open>\<^verbatim>\<open>GetAWSClient\<close>, lines 135 to 180.\<close>

definition GetAWSClient ::
  "('x, 's, 'a, 'b, 'c, 'd) libs \<Rightarrow> 'x kube_client \<Rightarrow> NewAwsClientInput \<Rightarrow> world
     \<Rightarrow> ('x error + ('a, 'b, 'c, 'd) AwsClient) \<times> world" where
  "GetAWSClient L kubeClient input w =
     (if AwsRegion input = []
      then (Inl (Errorf (''getAWSClient:NoRegion: '' @ AwsRegion input)), w)
      else if SecretName input \<noteq> [] \<and> NameSpace input \<noteq> []
      then
        (let key = \<lparr>Name = SecretName input, Namespace = NameSpace input\<rparr>;
             w = w\<lparr>calls := calls w @ [KubeGet key]\<rparr>
         in case kubeClient key of
              Inl err \<Rightarrow> (Inl (Foreign err), w)
            | Inr secret \<Rightarrow>
                (case Data secret awsCredsSecretIDKey of
                   None \<Rightarrow>
                     (Inl (Errorf (''AWS credentials secret '' @ SecretName input @
                                   '' did not contain key '' @ awsCredsSecretIDKey)), w)
                 | Some accessKeyID \<Rightarrow>
                     (case Data secret awsCredsSecretAccessKey of
                        None \<Rightarrow>
                          (Inl (Errorf (''AWS credentials secret '' @ SecretName input @
                                        '' did not contain key '' @ awsCredsSecretAccessKey)), w)
                      | Some secretAccessKey \<Rightarrow>
                          NewClient L accessKeyID secretAccessKey
                            (AwsToken input) (AwsRegion input) w)))
      else if AwsCredsSecretIDKey input = [] \<and> AwsCredsSecretAccessKey input \<noteq> []
      then (Inl (Errorf (''getAWSClient: NoAwsCredentials or Secret '' @ fmt_v_input input)), w)
      else NewClient L (AwsCredsSecretIDKey input) (AwsCredsSecretAccessKey input)
             (AwsToken input) (AwsRegion input) w)"

section \<open>The service client facade\<close>

text \<open>
  An operation of an SDK service client takes an input structure and answers with Go's
  pair of an output pointer and an error, either of which may be nil. The remote
  service is state outside the process, so an operation is a transformer of that state.
  The input and output structures are opaque to the package; one type variable stands
  for all of them.
\<close>

type_synonym ('i, 'o, 'x, 'r) operation = "'i \<Rightarrow> 'r \<Rightarrow> ('o option \<times> 'x option) \<times> 'r"

text \<open>
  The SDK interfaces \<^verbatim>\<open>elbiface.ELBAPI\<close>, \<^verbatim>\<open>elbv2iface.ELBV2API\<close>,
  \<^verbatim>\<open>route53iface.Route53API\<close> and \<^verbatim>\<open>ec2iface.EC2API\<close> as method tables, each
  reduced to the methods the package calls.
\<close>

record ('i, 'o, 'x, 'r) ELBAPI =
  elb_ApplySecurityGroupsToLoadBalancer :: "('i, 'o, 'x, 'r) operation"
  elb_ConfigureHealthCheck :: "('i, 'o, 'x, 'r) operation"
  elb_CreateLoadBalancer :: "('i, 'o, 'x, 'r) operation"
  elb_CreateLoadBalancerListeners :: "('i, 'o, 'x, 'r) operation"
  elb_DeleteLoadBalancerListeners :: "('i, 'o, 'x, 'r) operation"
  elb_DeregisterInstancesFromLoadBalancer :: "('i, 'o, 'x, 'r) operation"
  elb_DescribeLoadBalancers :: "('i, 'o, 'x, 'r) operation"
  elb_DescribeTags :: "('i, 'o, 'x, 'r) operation"
  elb_RegisterInstancesWithLoadBalancer :: "('i, 'o, 'x, 'r) operation"

record ('i, 'o, 'x, 'r) ELBV2API =
  elbv2_DescribeLoadBalancers :: "('i, 'o, 'x, 'r) operation"
  elbv2_DeleteLoadBalancer :: "('i, 'o, 'x, 'r) operation"
  elbv2_CreateLoadBalancer :: "('i, 'o, 'x, 'r) operation"
  elbv2_CreateTargetGroup :: "('i, 'o, 'x, 'r) operation"
  elbv2_RegisterTargets :: "('i, 'o, 'x, 'r) operation"
  elbv2_CreateListener :: "('i, 'o, 'x, 'r) operation"
  elbv2_DescribeTargetGroups :: "('i, 'o, 'x, 'r) operation"
  elbv2_AddTags :: "('i, 'o, 'x, 'r) operation"

record ('i, 'o, 'x, 'r) Route53API =
  route53_ChangeResourceRecordSets :: "('i, 'o, 'x, 'r) operation"
  route53_ListHostedZonesByName :: "('i, 'o, 'x, 'r) operation"

record ('i, 'o, 'x, 'r) EC2API =
  ec2_AuthorizeSecurityGroupIngress :: "('i, 'o, 'x, 'r) operation"
  ec2_CreateSecurityGroup :: "('i, 'o, 'x, 'r) operation"
  ec2_DeleteSecurityGroup :: "('i, 'o, 'x, 'r) operation"
  ec2_DescribeSecurityGroups :: "('i, 'o, 'x, 'r) operation"
  ec2_RevokeSecurityGroupIngress :: "('i, 'o, 'x, 'r) operation"
  ec2_DescribeSubnets :: "('i, 'o, 'x, 'r) operation"
  ec2_CreateTags :: "('i, 'o, 'x, 'r) operation"

text \<open>The passthrough methods of \<^verbatim>\<open>*AwsClient\<close>, lines 182 to 275, in source order.\<close>

definition ApplySecurityGroupsToLoadBalancer ::
  "('a, 'b, ('i, 'o, 'x, 'r) ELBAPI, 'd) AwsClient \<Rightarrow> ('i, 'o, 'x, 'r) operation" where
  "ApplySecurityGroupsToLoadBalancer c i = elb_ApplySecurityGroupsToLoadBalancer (elbClient c) i"

definition ConfigureHealthCheck ::
  "('a, 'b, ('i, 'o, 'x, 'r) ELBAPI, 'd) AwsClient \<Rightarrow> ('i, 'o, 'x, 'r) operation" where
  "ConfigureHealthCheck c i = elb_ConfigureHealthCheck (elbClient c) i"

definition CreateLoadBalancer ::
  "('a, 'b, ('i, 'o, 'x, 'r) ELBAPI, 'd) AwsClient \<Rightarrow> ('i, 'o, 'x, 'r) operation" where
  "CreateLoadBalancer c i = elb_CreateLoadBalancer (elbClient c) i"

definition CreateLoadBalancerListeners ::
  "('a, 'b, ('i, 'o, 'x, 'r) ELBAPI, 'd) AwsClient \<Rightarrow> ('i, 'o, 'x, 'r) operation" where
  "CreateLoadBalancerListeners c i = elb_CreateLoadBalancerListeners (elbClient c) i"

definition DeleteLoadBalancerListeners ::
  "('a, 'b, ('i, 'o, 'x, 'r) ELBAPI, 'd) AwsClient \<Rightarrow> ('i, 'o, 'x, 'r) operation" where
  "DeleteLoadBalancerListeners c i = elb_DeleteLoadBalancerListeners (elbClient c) i"

definition DeregisterInstancesFromLoadBalancer ::
  "('a, 'b, ('i, 'o, 'x, 'r) ELBAPI, 'd) AwsClient \<Rightarrow> ('i, 'o, 'x, 'r) operation" where
  "DeregisterInstancesFromLoadBalancer c i = elb_DeregisterInstancesFromLoadBalancer (elbClient c) i"

definition DescribeLoadBalancers ::
  "('a, 'b, ('i, 'o, 'x, 'r) ELBAPI, 'd) AwsClient \<Rightarrow> ('i, 'o, 'x, 'r) operation" where
  "DescribeLoadBalancers c i = elb_DescribeLoadBalancers (elbClient c) i"

definition DescribeLoadBalancersV2 ::
  "('a, 'b, 'c, ('i, 'o, 'x, 'r) ELBV2API) AwsClient \<Rightarrow> ('i, 'o, 'x, 'r) operation" where
  "DescribeLoadBalancersV2 c i = elbv2_DescribeLoadBalancers (elbv2Client c) i"

definition DeleteLoadBalancerV2 ::
  "('a, 'b, 'c, ('i, 'o, 'x, 'r) ELBV2API) AwsClient \<Rightarrow> ('i, 'o, 'x, 'r) operation" where
  "DeleteLoadBalancerV2 c i = elbv2_DeleteLoadBalancer (elbv2Client c) i"

definition CreateLoadBalancerV2 ::
  "('a, 'b, 'c, ('i, 'o, 'x, 'r) ELBV2API) AwsClient \<Rightarrow> ('i, 'o, 'x, 'r) operation" where
  "CreateLoadBalancerV2 c i = elbv2_CreateLoadBalancer (elbv2Client c) i"

definition CreateTargetGroupV2 ::
  "('a, 'b, 'c, ('i, 'o, 'x, 'r) ELBV2API) AwsClient \<Rightarrow> ('i, 'o, 'x, 'r) operation" where
  "CreateTargetGroupV2 c i = elbv2_CreateTargetGroup (elbv2Client c) i"

definition RegisterTargetsV2 ::
  "('a, 'b, 'c, ('i, 'o, 'x, 'r) ELBV2API) AwsClient \<Rightarrow> ('i, 'o, 'x, 'r) operation" where
  "RegisterTargetsV2 c i = elbv2_RegisterTargets (elbv2Client c) i"

definition CreateListenerV2 ::
  "('a, 'b, 'c, ('i, 'o, 'x, 'r) ELBV2API) AwsClient \<Rightarrow> ('i, 'o, 'x, 'r) operation" where
  "CreateListenerV2 c i = elbv2_CreateListener (elbv2Client c) i"

definition DescribeTags ::
  "('a, 'b, ('i, 'o, 'x, 'r) ELBAPI, 'd) AwsClient \<Rightarrow> ('i, 'o, 'x, 'r) operation" where
  "DescribeTags c i = elb_DescribeTags (elbClient c) i"

definition RegisterInstancesWithLoadBalancer ::
  "('a, 'b, ('i, 'o, 'x, 'r) ELBAPI, 'd) AwsClient \<Rightarrow> ('i, 'o, 'x, 'r) operation" where
  "RegisterInstancesWithLoadBalancer c i = elb_RegisterInstancesWithLoadBalancer (elbClient c) i"

definition DescribeTargetGroupsV2 ::
  "('a, 'b, 'c, ('i, 'o, 'x, 'r) ELBV2API) AwsClient \<Rightarrow> ('i, 'o, 'x, 'r) operation" where
  "DescribeTargetGroupsV2 c i = elbv2_DescribeTargetGroups (elbv2Client c) i"

definition AddTagsV2 ::
  "('a, 'b, 'c, ('i, 'o, 'x, 'r) ELBV2API) AwsClient \<Rightarrow> ('i, 'o, 'x, 'r) operation" where
  "AddTagsV2 c i = elbv2_AddTags (elbv2Client c) i"

definition ChangeResourceRecordSets ::
  "('a, ('i, 'o, 'x, 'r) Route53API, 'c, 'd) AwsClient \<Rightarrow> ('i, 'o, 'x, 'r) operation" where
  "ChangeResourceRecordSets c i = route53_ChangeResourceRecordSets (route53Client c) i"

definition ListHostedZonesByName ::
  "('a, ('i, 'o, 'x, 'r) Route53API, 'c, 'd) AwsClient \<Rightarrow> ('i, 'o, 'x, 'r) operation" where
  "ListHostedZonesByName c i = route53_ListHostedZonesByName (route53Client c) i"

definition AuthorizeSecurityGroupIngress ::
  "(('i, 'o, 'x, 'r) EC2API, 'b, 'c, 'd) AwsClient \<Rightarrow> ('i, 'o, 'x, 'r) operation" where
  "AuthorizeSecurityGroupIngress c i = ec2_AuthorizeSecurityGroupIngress (ec2Client c) i"

definition CreateSecurityGroup ::
  "(('i, 'o, 'x, 'r) EC2API, 'b, 'c, 'd) AwsClient \<Rightarrow> ('i, 'o, 'x, 'r) operation" where
  "CreateSecurityGroup c i = ec2_CreateSecurityGroup (ec2Client c) i"

definition DeleteSecurityGroup ::
  "(('i, 'o, 'x, 'r) EC2API, 'b, 'c, 'd) AwsClient \<Rightarrow> ('i, 'o, 'x, 'r) operation" where
  "DeleteSecurityGroup c i = ec2_DeleteSecurityGroup (ec2Client c) i"

definition DescribeSecurityGroups ::
  "(('i, 'o, 'x, 'r) EC2API, 'b, 'c, 'd) AwsClient \<Rightarrow> ('i, 'o, 'x, 'r) operation" where
  "DescribeSecurityGroups c i = ec2_DescribeSecurityGroups (ec2Client c) i"

definition RevokeSecurityGroupIngress ::
  "(('i, 'o, 'x, 'r) EC2API, 'b, 'c, 'd) AwsClient \<Rightarrow> ('i, 'o, 'x, 'r) operation" where
  "RevokeSecurityGroupIngress c i = ec2_RevokeSecurityGroupIngress (ec2Client c) i"

definition DescribeSubnets ::
  "(('i, 'o, 'x, 'r) EC2API, 'b, 'c, 'd) AwsClient \<Rightarrow> ('i, 'o, 'x, 'r) operation" where
  "DescribeSubnets c i = ec2_DescribeSubnets (ec2Client c) i"

definition CreateTags ::
  "(('i, 'o, 'x, 'r) EC2API, 'b, 'c, 'd) AwsClient \<Rightarrow> ('i, 'o, 'x, 'r) operation" where
  "CreateTags c i = ec2_CreateTags (ec2Client c) i"

section \<open>Composite helpers\<close>

text \<open>
  Modelled from the spec: the body of \<^verbatim>\<open>DoesELBExist\<close> is not in \<^verbatim>\<open>client.go\<close>,
  which has only its signature in the \<^verbatim>\<open>Client\<close> interface (line 92). The
  specification describes it as: issue a describe call, treat a specific not-found
  error code as a negative result (not a failure), any other error as a failure, and a
  non-empty result as success with the descriptor returned. The describe call, the test
  for the not-found code and the answer on an empty result without error, about which
  the specification is silent, are parameters.
\<close>

definition DoesELBExist ::
  "('x \<Rightarrow> bool) \<Rightarrow> (string \<Rightarrow> 'r \<Rightarrow> ('x + 'lb list) \<times> 'r) \<Rightarrow> (bool \<times> 'lb option \<times> 'x option)
     \<Rightarrow> string \<Rightarrow> 'r \<Rightarrow> (bool \<times> 'lb option \<times> 'x option) \<times> 'r" where
  "DoesELBExist is_not_found describe on_empty elbName r =
     (case describe elbName r of
        (Inl err, r') \<Rightarrow>
          if is_not_found err then ((False, None, None), r')
          else ((False, None, Some err), r')
      | (Inr [], r') \<Rightarrow> (on_empty, r')
      | (Inr (lb # _), r') \<Rightarrow> ((True, Some lb, None), r'))"

section \<open>A concrete process, for evaluating the definitions\<close>

text \<open>
  The environment primitive of the Go standard library, a session constructor that
  always succeeds and returns the configuration it was given, and service constructors
  that tag the session.
\<close>

definition sample_libs ::
  "(string, Config, string \<times> Config, string \<times> Config, string \<times> Config, string \<times> Config) libs" where
  "sample_libs =
     \<lparr>os_Setenv = go_Setenv ''invalid argument'',
      session_NewSession = (\<lambda>cfg e. Inr cfg),
      ec2_New = Pair ''ec2'',
      elb_New = Pair ''elb'',
      elbv2_New = Pair ''elbv2'',
      route53_New = Pair ''route53''\<rparr>"

text \<open>
  A secret store with four secrets in namespace \<^verbatim>\<open>y\<close>: \<^verbatim>\<open>x\<close> has only the access key
  id, \<^verbatim>\<open>full\<close> has both fields, \<^verbatim>\<open>blank\<close> has both fields with empty values,
  \<^verbatim>\<open>bare\<close> has the two fields named without the \<^verbatim>\<open>aws_\<close> prefix.
\<close>

definition sample_kube :: "string kube_client" where
  "sample_kube key =
     (if Namespace key = ''y'' \<and> Name key = ''x''
      then Inr \<lparr>Data = [''aws_access_key_id'' \<mapsto> ''AKIA'']\<rparr>
      else if Namespace key = ''y'' \<and> Name key = ''full''
      then Inr \<lparr>Data = [''aws_access_key_id'' \<mapsto> ''AKIA'',
                         ''aws_secret_access_key'' \<mapsto> ''hunter2'']\<rparr>
      else if Namespace key = ''y'' \<and> Name key = ''blank''
      then Inr \<lparr>Data = [''aws_access_key_id'' \<mapsto> [],
                         ''aws_secret_access_key'' \<mapsto> []]\<rparr>
      else if Namespace key = ''y'' \<and> Name key = ''bare''
      then Inr \<lparr>Data = [''access_key_id'' \<mapsto> ''AKIA'',
                         ''secret_access_key'' \<mapsto> ''hunter2'']\<rparr>
      else Inl ''secret not found'')"

definition fresh_world :: world where
  "fresh_world = \<lparr>environ = Map.empty, calls = []\<rparr>"

text \<open>
  Service clients that answer every request and keep a journal of the requests they
  received: an input \<^verbatim>\<open>bad\<close> is answered with an error, any other with an output.
\<close>

definition journalled :: "string \<Rightarrow> (string, string, string, (string \<times> string) list) operation" where
  "journalled opname i journal =
     (if i = ''bad'' then (None, Some (opname @ '': rejected''))
      else (Some (opname @ '': done''), None),
      journal @ [(opname, i)])"

definition sample_client ::
  "((string, string, string, (string \<times> string) list) EC2API,
    (string, string, string, (string \<times> string) list) Route53API,
    (string, string, string, (string \<times> string) list) ELBAPI,
    (string, string, string, (string \<times> string) list) ELBV2API) AwsClient" where
  "sample_client =
     \<lparr>ec2Client =
        \<lparr>ec2_AuthorizeSecurityGroupIngress = journalled ''ec2.AuthorizeSecurityGroupIngress'',
          ec2_CreateSecurityGroup = journalled ''ec2.CreateSecurityGroup'',
          ec2_DeleteSecurityGroup = journalled ''ec2.DeleteSecurityGroup'',
          ec2_DescribeSecurityGroups = journalled ''ec2.DescribeSecurityGroups'',
          ec2_RevokeSecurityGroupIngress = journalled ''ec2.RevokeSecurityGroupIngress'',
          ec2_DescribeSubnets = journalled ''ec2.DescribeSubnets'',
          ec2_CreateTags = journalled ''ec2.CreateTags''\<rparr>,
      route53Client =
        \<lparr>route53_ChangeResourceRecordSets = journalled ''route53.ChangeResourceRecordSets'',
          route53_ListHostedZonesByName = journalled ''route53.ListHostedZonesByName''\<rparr>,
      elbClient =
        \<lparr>elb_ApplySecurityGroupsToLoadBalancer = journalled ''elb.ApplySecurityGroupsToLoadBalancer'',
          elb_ConfigureHealthCheck = journalled ''elb.ConfigureHealthCheck'',
          elb_CreateLoadBalancer = journalled ''elb.CreateLoadBalancer'',
          elb_CreateLoadBalancerListeners = journalled ''elb.CreateLoadBalancerListeners'',
          elb_DeleteLoadBalancerListeners = journalled ''elb.DeleteLoadBalancerListeners'',
          elb_DeregisterInstancesFromLoadBalancer = journalled ''elb.DeregisterInstancesFromLoadBalancer'',
          elb_DescribeLoadBalancers = journalled ''elb.DescribeLoadBalancers'',
          elb_DescribeTags = journalled ''elb.DescribeTags'',
          elb_RegisterInstancesWithLoadBalancer = journalled ''elb.RegisterInstancesWithLoadBalancer''\<rparr>,
      elbv2Client =
        \<lparr>elbv2_DescribeLoadBalancers = journalled ''elbv2.DescribeLoadBalancers'',
          elbv2_DeleteLoadBalancer = journalled ''elbv2.DeleteLoadBalancer'',
          elbv2_CreateLoadBalancer = journalled ''elbv2.CreateLoadBalancer'',
          elbv2_CreateTargetGroup = journalled ''elbv2.CreateTargetGroup'',
          elbv2_RegisterTargets = journalled ''elbv2.RegisterTargets'',
          elbv2_CreateListener = journalled ''elbv2.CreateListener'',
          elbv2_DescribeTargetGroups = journalled ''elbv2.DescribeTargetGroups'',
          elbv2_AddTags = journalled ''elbv2.AddTags''\<rparr>\<rparr>"

text \<open>
  A describe call over a fixed set of load balancers: \<^verbatim>\<open>api\<close> exists, \<^verbatim>\<open>gone\<close> is
  reported with the not-found code, any other name with a throttling error.
\<close>

definition sample_describe :: "string \<Rightarrow> nat \<Rightarrow> (string + string list) \<times> nat" where
  "sample_describe elbName n =
     (if elbName = ''api'' then Inr [''api.example.com'']
      else if elbName = ''gone'' then Inl ''LoadBalancerNotFound''
      else Inl ''Throttling'', Suc n)"

section \<open>Facts about NewClient used below\<close>

lemma NewClient_calls:
  "calls (snd (NewClient L a s t r w)) =
     calls w @
     (if t = [] then [Setenv ''AWS_ACCESS_KEY_ID'' a, Setenv ''AWS_SECRET_ACCESS_KEY'' s]
      else []) @
     [NewSession \<lparr>Region = r,
                  Credentials = (if t = [] then None else Some (NewStaticCredentials a s t))\<rparr>]"
  by (simp add: NewClient_def Let_def setenv_def split: sum.split)


lemma NewClient_not_Errorf: "fst (NewClient L a s t r w) \<noteq> Inl (Errorf m)"
  by (simp add: NewClient_def Let_def split: sum.split)

lemma new_calls_append: "calls w' = calls w @ evs \<Longrightarrow> new_calls w w' = evs"
  by (simp add: new_calls_def)

lemma NewClient_no_KubeGet:
  "filter is_KubeGet (new_calls w (snd (NewClient L a s t r w))) = []"
  by (simp add: new_calls_append [OF NewClient_calls])

section \<open>Properties of credential resolution\<close>

text \<open>
  C1. A configuration whose region is empty is refused with the configuration error of
  line 139, whatever the other five fields hold, and nothing has happened by then: the
  world is returned as it was received, so no secret was looked up, no environment
  variable was written and no session was constructed.
\<close>

theorem GetAWSClient_no_region:
  "GetAWSClient L kubeClient
     \<lparr>AwsCredsSecretIDKey = k, AwsCredsSecretAccessKey = s, AwsToken = t,
      AwsRegion = [], SecretName = n, NameSpace = ns\<rparr> w
   = (Inl (Errorf ''getAWSClient:NoRegion: ''), w)"
  by (simp add: GetAWSClient_def)

theorem GetAWSClient_no_region_witness:
  "GetAWSClient sample_libs sample_kube
     \<lparr>AwsCredsSecretIDKey = ''AKIA'', AwsCredsSecretAccessKey = ''hunter2'', AwsToken = [],
      AwsRegion = [], SecretName = ''full'', NameSpace = ''y''\<rparr> fresh_world
   = (Inl (Errorf ''getAWSClient:NoRegion: ''), fresh_world)"
  using GetAWSClient_no_region [of sample_libs sample_kube "''AKIA''" "''hunter2''" "[]"
      "''full''" "''y''" fresh_world]
  by simp

text \<open>
  C2. With a secret reference (name and namespace both given) a run of GetAWSClient
  looks a secret up at most once. When the region is given too and the looked-up
  record has no field \<^verbatim>\<open>aws_access_key_id\<close>, the run fails with the error naming the
  secret and that field; when the record has that field and no field
  \<^verbatim>\<open>aws_secret_access_key\<close>, it fails with the error naming the secret and
  \<^verbatim>\<open>aws_secret_access_key\<close>. In both cases the lookup is the only call made: the
  world returned is the one received with that one event added.
\<close>

theorem GetAWSClient_secret_missing_field:
  assumes "SecretName input \<noteq> []" and "NameSpace input \<noteq> []"
  shows
    "length (filter is_KubeGet (new_calls w (snd (GetAWSClient L kubeClient input w)))) \<le> 1 \<and>
     (AwsRegion input \<noteq> [] \<longrightarrow>
      (\<forall>secret.
         kubeClient \<lparr>Name = SecretName input, Namespace = NameSpace input\<rparr> = Inr secret \<longrightarrow>
         (Data secret ''aws_access_key_id'' = None \<longrightarrow>
            GetAWSClient L kubeClient input w =
              (Inl (Errorf (''AWS credentials secret '' @ SecretName input @
                            '' did not contain key aws_access_key_id'')),
               w\<lparr>calls := calls w @
                    [KubeGet \<lparr>Name = SecretName input, Namespace = NameSpace input\<rparr>]\<rparr>)) \<and>
         (Data secret ''aws_access_key_id'' \<noteq> None \<and>
          Data secret ''aws_secret_access_key'' = None \<longrightarrow>
            GetAWSClient L kubeClient input w =
              (Inl (Errorf (''AWS credentials secret '' @ SecretName input @
                            '' did not contain key aws_secret_access_key'')),
               w\<lparr>calls := calls w @
                    [KubeGet \<lparr>Name = SecretName input, Namespace = NameSpace input\<rparr>]\<rparr>))))"
proof (intro conjI impI allI)
  let ?key = "\<lparr>Name = SecretName input, Namespace = NameSpace input\<rparr>"
  let ?w1 = "w\<lparr>calls := calls w @ [KubeGet ?key]\<rparr>"
  have after: "new_calls w (snd (NewClient L a s t r ?w1)) =
      KubeGet ?key # new_calls ?w1 (snd (NewClient L a s t r ?w1))" for a s t r
    by (simp add: new_calls_def NewClient_calls)
  show "length (filter is_KubeGet (new_calls w (snd (GetAWSClient L kubeClient input w)))) \<le> 1"
    using assms
    by (simp add: GetAWSClient_def Let_def after NewClient_no_KubeGet
        split: sum.split option.split)
      (simp add: new_calls_def)
next
  fix secret
  assume "AwsRegion input \<noteq> []"
    and "kubeClient \<lparr>Name = SecretName input, Namespace = NameSpace input\<rparr> = Inr secret"
    and "Data secret ''aws_access_key_id'' = None"
  with assms show "GetAWSClient L kubeClient input w =
      (Inl (Errorf (''AWS credentials secret '' @ SecretName input @
                    '' did not contain key aws_access_key_id'')),
       w\<lparr>calls := calls w @
            [KubeGet \<lparr>Name = SecretName input, Namespace = NameSpace input\<rparr>]\<rparr>)"
    by (simp add: GetAWSClient_def Let_def awsCredsSecretIDKey_def)
next
  fix secret
  assume "AwsRegion input \<noteq> []"
    and "kubeClient \<lparr>Name = SecretName input, Namespace = NameSpace input\<rparr> = Inr secret"
    and "Data secret ''aws_access_key_id'' \<noteq> None \<and> Data secret ''aws_secret_access_key'' = None"
  with assms show "GetAWSClient L kubeClient input w =
      (Inl (Errorf (''AWS credentials secret '' @ SecretName input @
                    '' did not contain key aws_secret_access_key'')),
       w\<lparr>calls := calls w @
            [KubeGet \<lparr>Name = SecretName input, Namespace = NameSpace input\<rparr>]\<rparr>)"
    by (auto simp add: GetAWSClient_def Let_def awsCredsSecretIDKey_def
        awsCredsSecretAccessKey_def)
qed

theorem GetAWSClient_secret_missing_field_witness:
  "SecretName \<lparr>AwsCredsSecretIDKey = [], AwsCredsSecretAccessKey = [], AwsToken = [],
      AwsRegion = ''us-east-1'', SecretName = ''x'', NameSpace = ''y''\<rparr> \<noteq> [] \<and>
   NameSpace \<lparr>AwsCredsSecretIDKey = [], AwsCredsSecretAccessKey = [], AwsToken = [],
      AwsRegion = ''us-east-1'', SecretName = ''x'', NameSpace = ''y''\<rparr> \<noteq> [] \<and>
   GetAWSClient sample_libs sample_kube
     \<lparr>AwsCredsSecretIDKey = [], AwsCredsSecretAccessKey = [], AwsToken = [],
      AwsRegion = ''us-east-1'', SecretName = ''x'', NameSpace = ''y''\<rparr> fresh_world
   = (Inl (Errorf ''AWS credentials secret x did not contain key aws_secret_access_key''),
      fresh_world\<lparr>calls := [KubeGet \<lparr>Name = ''x'', Namespace = ''y''\<rparr>]\<rparr>)"
  using GetAWSClient_secret_missing_field
    [of "\<lparr>AwsCredsSecretIDKey = [], AwsCredsSecretAccessKey = [], AwsToken = [],
           AwsRegion = ''us-east-1'', SecretName = ''x'', NameSpace = ''y''\<rparr>"
        fresh_world sample_libs sample_kube]
  by (simp add: sample_kube_def fresh_world_def)

text \<open>
  C3. On the secret-reference path the inline credential fields are not read: two
  configurations that agree on a non-empty region, on a non-empty secret name, on a
  non-empty namespace and on the token give the same result and the same world, whatever
  their inline access keys and inline secrets are.
\<close>

theorem GetAWSClient_secret_precedence:
  assumes "AwsRegion i1 = AwsRegion i2" and "AwsRegion i1 \<noteq> []"
    and "SecretName i1 = SecretName i2" and "SecretName i1 \<noteq> []"
    and "NameSpace i1 = NameSpace i2" and "NameSpace i1 \<noteq> []"
    and "AwsToken i1 = AwsToken i2"
  shows "GetAWSClient L kubeClient i1 w = GetAWSClient L kubeClient i2 w"
proof -
  from assms have "AwsRegion i2 \<noteq> []" and "SecretName i2 \<noteq> []" and "NameSpace i2 \<noteq> []"
    by simp_all
  with assms show ?thesis
    by (simp add: GetAWSClient_def Let_def split: sum.split option.split)
qed

theorem GetAWSClient_secret_precedence_witness:
  "GetAWSClient sample_libs sample_kube
     \<lparr>AwsCredsSecretIDKey = ''inline-a'', AwsCredsSecretAccessKey = ''inline-b'',
      AwsToken = ''tok'', AwsRegion = ''us-east-1'', SecretName = ''full'', NameSpace = ''y''\<rparr>
     fresh_world
   = GetAWSClient sample_libs sample_kube
     \<lparr>AwsCredsSecretIDKey = [], AwsCredsSecretAccessKey = ''other'',
      AwsToken = ''tok'', AwsRegion = ''us-east-1'', SecretName = ''full'', NameSpace = ''y''\<rparr>
     fresh_world"
  using GetAWSClient_secret_precedence
    [of "\<lparr>AwsCredsSecretIDKey = ''inline-a'', AwsCredsSecretAccessKey = ''inline-b'',
           AwsToken = ''tok'', AwsRegion = ''us-east-1'', SecretName = ''full'',
           NameSpace = ''y''\<rparr>"
        "\<lparr>AwsCredsSecretIDKey = [], AwsCredsSecretAccessKey = ''other'',
           AwsToken = ''tok'', AwsRegion = ''us-east-1'', SecretName = ''full'',
           NameSpace = ''y''\<rparr>"
        sample_libs sample_kube fresh_world]
  by simp

text \<open>
  C4. With a region, with the secret-reference branch not taken (the secret name or the
  namespace is empty), an empty inline access key and a non-empty inline secret,
  GetAWSClient fails with the configuration error of line 172 and returns the world as
  it received it: no lookup, no write of an environment variable, no session.
\<close>

theorem GetAWSClient_partial_inline_credentials:
  assumes "AwsRegion input \<noteq> []"
    and "SecretName input = [] \<or> NameSpace input = []"
    and "AwsCredsSecretIDKey input = []"
    and "AwsCredsSecretAccessKey input \<noteq> []"
  shows "GetAWSClient L kubeClient input w =
           (Inl (Errorf (''getAWSClient: NoAwsCredentials or Secret '' @ fmt_v_input input)), w)"
  using assms by (auto simp add: GetAWSClient_def)

theorem GetAWSClient_partial_inline_credentials_witness:
  "AwsRegion \<lparr>AwsCredsSecretIDKey = [], AwsCredsSecretAccessKey = ''hunter2'', AwsToken = [],
      AwsRegion = ''us-east-1'', SecretName = [], NameSpace = []\<rparr> \<noteq> [] \<and>
   AwsCredsSecretAccessKey \<lparr>AwsCredsSecretIDKey = [], AwsCredsSecretAccessKey = ''hunter2'',
      AwsToken = [], AwsRegion = ''us-east-1'', SecretName = [], NameSpace = []\<rparr> \<noteq> [] \<and>
   GetAWSClient sample_libs sample_kube
     \<lparr>AwsCredsSecretIDKey = [], AwsCredsSecretAccessKey = ''hunter2'', AwsToken = [],
      AwsRegion = ''us-east-1'', SecretName = [], NameSpace = []\<rparr> fresh_world
   = (Inl (Errorf ''getAWSClient: NoAwsCredentials or Secret { hunter2  us-east-1  }''),
      fresh_world)"
  using GetAWSClient_partial_inline_credentials
    [of "\<lparr>AwsCredsSecretIDKey = [], AwsCredsSecretAccessKey = ''hunter2'', AwsToken = [],
           AwsRegion = ''us-east-1'', SecretName = [], NameSpace = []\<rparr>"
        sample_libs sample_kube fresh_world]
  by (simp add: fmt_v_input_def)




text \<open>
  C7, as the specification words it: the two fields whose absence makes the
  secret-reference path fail are \<^verbatim>\<open>access_key_id\<close> and \<^verbatim>\<open>secret_access_key\<close>.
  The code reads other names. The secret \<^verbatim>\<open>full\<close> has neither of those two fields and
  resolution succeeds; the secret \<^verbatim>\<open>bare\<close> has both of them and resolution fails,
  naming \<^verbatim>\<open>aws_access_key_id\<close>.
\<close>

theorem GetAWSClient_unprefixed_fields_counterexample:
  "Data \<lparr>Data = [''aws_access_key_id'' \<mapsto> ''AKIA'', ''aws_secret_access_key'' \<mapsto> ''hunter2'']\<rparr>
     ''access_key_id'' = None \<and>
   Data \<lparr>Data = [''aws_access_key_id'' \<mapsto> ''AKIA'', ''aws_secret_access_key'' \<mapsto> ''hunter2'']\<rparr>
     ''secret_access_key'' = None \<and>
   sample_kube \<lparr>Name = ''full'', Namespace = ''y''\<rparr> =
     Inr \<lparr>Data = [''aws_access_key_id'' \<mapsto> ''AKIA'', ''aws_secret_access_key'' \<mapsto> ''hunter2'']\<rparr> \<and>
   fst (GetAWSClient sample_libs sample_kube
     \<lparr>AwsCredsSecretIDKey = [], AwsCredsSecretAccessKey = [], AwsToken = ''tok'',
      AwsRegion = ''us-east-1'', SecretName = ''full'', NameSpace = ''y''\<rparr> fresh_world)
   = Inr \<lparr>ec2Client = (''ec2'', \<lparr>Region = ''us-east-1'',
             Credentials = Some (NewStaticCredentials ''AKIA'' ''hunter2'' ''tok'')\<rparr>),
          route53Client = (''route53'', \<lparr>Region = ''us-east-1'',
             Credentials = Some (NewStaticCredentials ''AKIA'' ''hunter2'' ''tok'')\<rparr>),
          elbClient = (''elb'', \<lparr>Region = ''us-east-1'',
             Credentials = Some (NewStaticCredentials ''AKIA'' ''hunter2'' ''tok'')\<rparr>),
          elbv2Client = (''elbv2'', \<lparr>Region = ''us-east-1'',
             Credentials = Some (NewStaticCredentials ''AKIA'' ''hunter2'' ''tok'')\<rparr>)\<rparr> \<and>
   sample_kube \<lparr>Name = ''bare'', Namespace = ''y''\<rparr> =
     Inr \<lparr>Data = [''access_key_id'' \<mapsto> ''AKIA'', ''secret_access_key'' \<mapsto> ''hunter2'']\<rparr> \<and>
   fst (GetAWSClient sample_libs sample_kube
     \<lparr>AwsCredsSecretIDKey = [], AwsCredsSecretAccessKey = [], AwsToken = ''tok'',
      AwsRegion = ''us-east-1'', SecretName = ''bare'', NameSpace = ''y''\<rparr> fresh_world)
   = Inl (Errorf ''AWS credentials secret bare did not contain key aws_access_key_id'')"
  by (simp add: GetAWSClient_def NewClient_def Let_def sample_kube_def sample_libs_def
      fresh_world_def awsCredsSecretIDKey_def awsCredsSecretAccessKey_def)

text \<open>
  C7, amended: on the secret-reference path, once the lookup has returned a record,
  resolution fails with an error made by this package exactly when the record lacks
  \<^verbatim>\<open>aws_access_key_id\<close> or lacks \<^verbatim>\<open>aws_secret_access_key\<close>, and the message of
  that error names one of these two fields.
\<close>

theorem GetAWSClient_missing_field_names:
  assumes "AwsRegion input \<noteq> []" and "SecretName input \<noteq> []" and "NameSpace input \<noteq> []"
    and "kubeClient \<lparr>Name = SecretName input, Namespace = NameSpace input\<rparr> = Inr secret"
  shows
    "((\<exists>m. fst (GetAWSClient L kubeClient input w) = Inl (Errorf m)) \<longleftrightarrow>
        Data secret ''aws_access_key_id'' = None \<or>
        Data secret ''aws_secret_access_key'' = None) \<and>
     (\<forall>m. fst (GetAWSClient L kubeClient input w) = Inl (Errorf m) \<longrightarrow>
        m = ''AWS credentials secret '' @ SecretName input @
              '' did not contain key aws_access_key_id'' \<or>
        m = ''AWS credentials secret '' @ SecretName input @
              '' did not contain key aws_secret_access_key'')"
  using assms
  by (auto simp add: GetAWSClient_def Let_def awsCredsSecretIDKey_def
      awsCredsSecretAccessKey_def NewClient_not_Errorf split: option.splits)

theorem GetAWSClient_missing_field_names_witness:
  "AwsRegion \<lparr>AwsCredsSecretIDKey = [], AwsCredsSecretAccessKey = [], AwsToken = [],
      AwsRegion = ''us-east-1'', SecretName = ''x'', NameSpace = ''y''\<rparr> \<noteq> [] \<and>
   sample_kube \<lparr>Name = ''x'', Namespace = ''y''\<rparr> =
     Inr \<lparr>Data = [''aws_access_key_id'' \<mapsto> ''AKIA'']\<rparr> \<and>
   (\<exists>m. fst (GetAWSClient sample_libs sample_kube
     \<lparr>AwsCredsSecretIDKey = [], AwsCredsSecretAccessKey = [], AwsToken = [],
      AwsRegion = ''us-east-1'', SecretName = ''x'', NameSpace = ''y''\<rparr> fresh_world)
     = Inl (Errorf m))"
  using GetAWSClient_missing_field_names
    [of "\<lparr>AwsCredsSecretIDKey = [], AwsCredsSecretAccessKey = [], AwsToken = [],
           AwsRegion = ''us-east-1'', SecretName = ''x'', NameSpace = ''y''\<rparr>"
        sample_kube "\<lparr>Data = [''aws_access_key_id'' \<mapsto> ''AKIA'']\<rparr>"
        sample_libs fresh_world]
  by (simp add: sample_kube_def)



text \<open>
  C10. The check of the fetched secret is a check of key presence. When the record maps
  both \<^verbatim>\<open>aws_access_key_id\<close> and \<^verbatim>\<open>aws_secret_access_key\<close> to the empty byte
  string, resolution does not fail with an error of this package: it goes on to
  NewClient with the empty access key and the empty secret, after the one lookup.
\<close>

theorem GetAWSClient_empty_secret_values:
  assumes "AwsRegion input \<noteq> []" and "SecretName input \<noteq> []" and "NameSpace input \<noteq> []"
    and "kubeClient \<lparr>Name = SecretName input, Namespace = NameSpace input\<rparr> = Inr secret"
    and "Data secret ''aws_access_key_id'' = Some []"
    and "Data secret ''aws_secret_access_key'' = Some []"
  shows
    "GetAWSClient L kubeClient input w =
       NewClient L [] [] (AwsToken input) (AwsRegion input)
         (w\<lparr>calls := calls w @
              [KubeGet \<lparr>Name = SecretName input, Namespace = NameSpace input\<rparr>]\<rparr>) \<and>
     (\<forall>m. fst (GetAWSClient L kubeClient input w) \<noteq> Inl (Errorf m))"
proof -
  from assms have run: "GetAWSClient L kubeClient input w =
       NewClient L [] [] (AwsToken input) (AwsRegion input)
         (w\<lparr>calls := calls w @
              [KubeGet \<lparr>Name = SecretName input, Namespace = NameSpace input\<rparr>]\<rparr>)"
    by (simp add: GetAWSClient_def Let_def awsCredsSecretIDKey_def awsCredsSecretAccessKey_def)
  then show ?thesis
    by (simp add: NewClient_not_Errorf)
qed

theorem GetAWSClient_empty_secret_values_witness:
  "sample_kube \<lparr>Name = ''blank'', Namespace = ''y''\<rparr> =
     Inr \<lparr>Data = [''aws_access_key_id'' \<mapsto> [], ''aws_secret_access_key'' \<mapsto> []]\<rparr> \<and>
   fst (GetAWSClient sample_libs sample_kube
     \<lparr>AwsCredsSecretIDKey = ''AKIA'', AwsCredsSecretAccessKey = ''hunter2'',
      AwsToken = ''tok'', AwsRegion = ''us-east-1'', SecretName = ''blank'', NameSpace = ''y''\<rparr>
     fresh_world)
   = Inr \<lparr>ec2Client = (''ec2'', \<lparr>Region = ''us-east-1'',
             Credentials = Some (NewStaticCredentials [] [] ''tok'')\<rparr>),
          route53Client = (''route53'', \<lparr>Region = ''us-east-1'',
             Credentials = Some (NewStaticCredentials [] [] ''tok'')\<rparr>),
          elbClient = (''elb'', \<lparr>Region = ''us-east-1'',
             Credentials = Some (NewStaticCredentials [] [] ''tok'')\<rparr>),
          elbv2Client = (''elbv2'', \<lparr>Region = ''us-east-1'',
             Credentials = Some (NewStaticCredentials [] [] ''tok'')\<rparr>)\<rparr>"
  using GetAWSClient_empty_secret_values
    [of "\<lparr>AwsCredsSecretIDKey = ''AKIA'', AwsCredsSecretAccessKey = ''hunter2'',
           AwsToken = ''tok'', AwsRegion = ''us-east-1'', SecretName = ''blank'',
           NameSpace = ''y''\<rparr>"
        sample_kube
        "\<lparr>Data = [''aws_access_key_id'' \<mapsto> [], ''aws_secret_access_key'' \<mapsto> []]\<rparr>"
        sample_libs fresh_world]
  by (simp add: sample_kube_def sample_libs_def NewClient_def Let_def)

section \<open>Properties of the facade and of the helper\<close>

text \<open>
  C6. Every passthrough method of the facade is the operation of the underlying service
  client, as a transformer of the remote state: on every input and in every state the
  pair of output and error it returns is the pair the SDK operation returns on that
  input, and the state it leaves is the state that one call leaves. Nothing is changed
  on the way, no error is translated and the operation is invoked once.
\<close>

theorem facade_passthrough:
  "ApplySecurityGroupsToLoadBalancer c i = elb_ApplySecurityGroupsToLoadBalancer (elbClient c) i \<and>
   ConfigureHealthCheck c i = elb_ConfigureHealthCheck (elbClient c) i \<and>
   CreateLoadBalancer c i = elb_CreateLoadBalancer (elbClient c) i \<and>
   CreateLoadBalancerListeners c i = elb_CreateLoadBalancerListeners (elbClient c) i \<and>
   DeleteLoadBalancerListeners c i = elb_DeleteLoadBalancerListeners (elbClient c) i \<and>
   DeregisterInstancesFromLoadBalancer c i = elb_DeregisterInstancesFromLoadBalancer (elbClient c) i \<and>
   DescribeLoadBalancers c i = elb_DescribeLoadBalancers (elbClient c) i \<and>
   DescribeLoadBalancersV2 c i = elbv2_DescribeLoadBalancers (elbv2Client c) i \<and>
   DeleteLoadBalancerV2 c i = elbv2_DeleteLoadBalancer (elbv2Client c) i \<and>
   CreateLoadBalancerV2 c i = elbv2_CreateLoadBalancer (elbv2Client c) i \<and>
   CreateTargetGroupV2 c i = elbv2_CreateTargetGroup (elbv2Client c) i \<and>
   RegisterTargetsV2 c i = elbv2_RegisterTargets (elbv2Client c) i \<and>
   CreateListenerV2 c i = elbv2_CreateListener (elbv2Client c) i \<and>
   DescribeTags c i = elb_DescribeTags (elbClient c) i \<and>
   RegisterInstancesWithLoadBalancer c i = elb_RegisterInstancesWithLoadBalancer (elbClient c) i \<and>
   DescribeTargetGroupsV2 c i = elbv2_DescribeTargetGroups (elbv2Client c) i \<and>
   AddTagsV2 c i = elbv2_AddTags (elbv2Client c) i \<and>
   ChangeResourceRecordSets c i = route53_ChangeResourceRecordSets (route53Client c) i \<and>
   ListHostedZonesByName c i = route53_ListHostedZonesByName (route53Client c) i \<and>
   AuthorizeSecurityGroupIngress c i = ec2_AuthorizeSecurityGroupIngress (ec2Client c) i \<and>
   CreateSecurityGroup c i = ec2_CreateSecurityGroup (ec2Client c) i \<and>
   DeleteSecurityGroup c i = ec2_DeleteSecurityGroup (ec2Client c) i \<and>
   DescribeSecurityGroups c i = ec2_DescribeSecurityGroups (ec2Client c) i \<and>
   RevokeSecurityGroupIngress c i = ec2_RevokeSecurityGroupIngress (ec2Client c) i \<and>
   DescribeSubnets c i = ec2_DescribeSubnets (ec2Client c) i \<and>
   CreateTags c i = ec2_CreateTags (ec2Client c) i"
  by (simp add: ApplySecurityGroupsToLoadBalancer_def ConfigureHealthCheck_def
      CreateLoadBalancer_def CreateLoadBalancerListeners_def
      DeleteLoadBalancerListeners_def DeregisterInstancesFromLoadBalancer_def
      DescribeLoadBalancers_def DescribeLoadBalancersV2_def DeleteLoadBalancerV2_def
      CreateLoadBalancerV2_def CreateTargetGroupV2_def RegisterTargetsV2_def
      CreateListenerV2_def DescribeTags_def RegisterInstancesWithLoadBalancer_def
      DescribeTargetGroupsV2_def AddTagsV2_def ChangeResourceRecordSets_def
      ListHostedZonesByName_def AuthorizeSecurityGroupIngress_def
      CreateSecurityGroup_def DeleteSecurityGroup_def DescribeSecurityGroups_def
      RevokeSecurityGroupIngress_def DescribeSubnets_def CreateTags_def)

theorem facade_passthrough_witness:
  "DescribeLoadBalancersV2 sample_client ''names'' [] =
     ((Some ''elbv2.DescribeLoadBalancers: done'', None),
      [(''elbv2.DescribeLoadBalancers'', ''names'')]) \<and>
   DescribeSubnets sample_client ''bad'' [] =
     ((None, Some ''ec2.DescribeSubnets: rejected''), [(''ec2.DescribeSubnets'', ''bad'')])"
  using facade_passthrough [of sample_client "''names''"]
    facade_passthrough [of sample_client "''bad''"]
  by (simp add: sample_client_def journalled_def)

text \<open>
  C8. The existence check, as the specification describes it. When the describe call
  reports the not-found code for the name, the helper returns (false, nil, nil): a
  negative answer without error. Any other error of the describe call is returned as
  the helper's error. A describe result with at least one descriptor gives (true, the
  first descriptor, nil).
\<close>

theorem DoesELBExist_outcomes:
  "(fst (describe elbName r) = Inl err \<and> is_not_found err \<longrightarrow>
      fst (DoesELBExist is_not_found describe on_empty elbName r) = (False, None, None)) \<and>
   (fst (describe elbName r) = Inl err \<and> \<not> is_not_found err \<longrightarrow>
      snd (snd (fst (DoesELBExist is_not_found describe on_empty elbName r))) = Some err) \<and>
   (fst (describe elbName r) = Inr (lb # lbs) \<longrightarrow>
      fst (DoesELBExist is_not_found describe on_empty elbName r) = (True, Some lb, None))"
  by (cases "describe elbName r") (simp add: DoesELBExist_def split: sum.split list.split)

theorem DoesELBExist_outcomes_witness:
  "fst (sample_describe ''gone'' 0) = Inl ''LoadBalancerNotFound'' \<and>
   fst (DoesELBExist (\<lambda>e. e = ''LoadBalancerNotFound'') sample_describe
          (False, None, None) ''gone'' 0) = (False, None, None) \<and>
   fst (sample_describe ''other'' 0) = Inl ''Throttling'' \<and>
   snd (snd (fst (DoesELBExist (\<lambda>e. e = ''LoadBalancerNotFound'') sample_describe
          (False, None, None) ''other'' 0))) = Some ''Throttling'' \<and>
   fst (sample_describe ''api'' 0) = Inr [''api.example.com''] \<and>
   fst (DoesELBExist (\<lambda>e. e = ''LoadBalancerNotFound'') sample_describe
          (False, None, None) ''api'' 0) = (True, Some ''api.example.com'', None)"
proof -
  have gone: "fst (sample_describe ''gone'' 0) = Inl ''LoadBalancerNotFound''"
    and other: "fst (sample_describe ''other'' 0) = Inl ''Throttling''"
    and api: "fst (sample_describe ''api'' 0) = Inr [''api.example.com'']"
    by (simp_all add: sample_describe_def)
  have "fst (DoesELBExist (\<lambda>e. e = ''LoadBalancerNotFound'') sample_describe
          (False, None, None) ''gone'' 0) = (False, None, None)"
    using DoesELBExist_outcomes [of sample_describe "''gone''" 0 "''LoadBalancerNotFound''"
        "\<lambda>e. e = ''LoadBalancerNotFound''" "(False, None, None)"] gone
    by blast
  moreover have "snd (snd (fst (DoesELBExist (\<lambda>e. e = ''LoadBalancerNotFound'') sample_describe
          (False, None, None) ''other'' 0))) = Some ''Throttling''"
    using DoesELBExist_outcomes [of sample_describe "''other''" 0 "''Throttling''"
        "\<lambda>e. e = ''LoadBalancerNotFound''" "(False, None, None)"] other
    by simp
  moreover have "fst (DoesELBExist (\<lambda>e. e = ''LoadBalancerNotFound'') sample_describe
          (False, None, None) ''api'' 0) = (True, Some ''api.example.com'', None)"
    using DoesELBExist_outcomes [of sample_describe "''api''" 0 _ _ _ "''api.example.com''" "[]"] api
    by blast
  ultimately show ?thesis
    using gone other api by blast
qed

end
